theory Spec2Isabelle
  imports Complex_Main
begin

section \<open>Python values\<close>

text \<open>
  The normalizer works on \<^verbatim>\<open>Dict[str, Any]\<close> records as a JSON decoder produces them.
  A float is a binary64: \<open>Finite q\<close> is the float whose exact value is the rational \<open>q\<close>
  (\<open>Finite 0\<close> is \<open>0.0\<close>), \<open>NegZero\<close> is \<open>-0.0\<close>, \<open>Infinity neg\<close> an infinity with its sign,
  and \<open>NaN\<close> not-a-number.
  A dict is an association list in insertion order; \<^verbatim>\<open>d.get(k, default)\<close> reads the first
  entry for \<open>k\<close>. Text is \<open>string\<close>, each character a code point below 256.
\<close>

datatype pyfloat = Finite rat | NegZero | Infinity bool | NaN

datatype pyval =
    PNone
  | PBool bool
  | PInt int
  | PFloat pyfloat
  | PStr string
  | PList "pyval list"
  | PDict "(string \<times> pyval) list"

type_synonym pydict = "(string \<times> pyval) list"

datatype pyerr = TypeError | ValueError | OverflowError | AttributeError | RequestException

definition dict_get :: "pydict \<Rightarrow> string \<Rightarrow> pyval \<Rightarrow> pyval" where
  "dict_get d k dflt = (case map_of d k of None \<Rightarrow> dflt | Some v \<Rightarrow> v)"

text \<open>Truth value of an object, as \<^verbatim>\<open>if brand\<close> tests it.\<close>

fun truthy :: "pyval \<Rightarrow> bool" where
  "truthy PNone = False"
| "truthy (PBool b) = b"
| "truthy (PInt i) = (i \<noteq> 0)"
| "truthy (PFloat (Finite q)) = (q \<noteq> 0)"
| "truthy (PFloat NegZero) = False"
| "truthy (PFloat (Infinity s)) = True"
| "truthy (PFloat NaN) = True"
| "truthy (PStr s) = (s \<noteq> [])"
| "truthy (PList xs) = (xs \<noteq> [])"
| "truthy (PDict d) = (d \<noteq> [])"

section \<open>String built-ins\<close>

text \<open>\<^verbatim>\<open>str.lower()\<close> on code points below 256: A-Z and the Latin-1 capitals move up by 32.\<close>

definition lower_char :: "char \<Rightarrow> char" where
  "lower_char c =
     (let n = (of_char c :: nat)
      in if (65 \<le> n \<and> n \<le> 90) \<or> (192 \<le> n \<and> n \<le> 214) \<or> (216 \<le> n \<and> n \<le> 222)
         then char_of (n + 32) else c)"

definition lower :: "string \<Rightarrow> string" where
  "lower s = map lower_char s"

text \<open>The method call \<^verbatim>\<open>x.lower()\<close> on an arbitrary object: only \<^verbatim>\<open>str\<close> has the attribute.\<close>

fun py_lower :: "pyval \<Rightarrow> pyerr + string" where
  "py_lower (PStr s) = Inr (lower s)"
| "py_lower v = Inl AttributeError"

text \<open>\<^verbatim>\<open>sub in s\<close> for two strings.\<close>

fun starts_with :: "string \<Rightarrow> string \<Rightarrow> bool" where
  "starts_with s [] = True"
| "starts_with [] (c # sub) = False"
| "starts_with (x # s) (c # sub) = (x = c \<and> starts_with s sub)"

fun str_contains :: "string \<Rightarrow> string \<Rightarrow> bool" where
  "str_contains [] sub = (sub = [])"
| "str_contains (x # s) sub = (starts_with (x # s) sub \<or> str_contains s sub)"

section \<open>Regular expressions of the condition table\<close>

text \<open>
  The patterns of \<^verbatim>\<open>condition_mapping\<close> are alternatives of sequences of literal
  characters and \<^verbatim>\<open>\b\<close>. A word character (\<^verbatim>\<open>\w\<close> on \<^verbatim>\<open>str\<close>) is an alphanumeric code
  point or the underscore; \<^verbatim>\<open>\b\<close> holds between a word character and a non-word
  character or an end of the text.
\<close>

datatype re_atom = WordBoundary | Lit char

type_synonym regex = "re_atom list list"

definition is_word_char :: "char \<Rightarrow> bool" where
  "is_word_char c =
     (let n = (of_char c :: nat)
      in (48 \<le> n \<and> n \<le> 57) \<or> (65 \<le> n \<and> n \<le> 90) \<or> n = 95 \<or> (97 \<le> n \<and> n \<le> 122)
         \<or> n = 170 \<or> n = 178 \<or> n = 179 \<or> n = 181 \<or> n = 185 \<or> n = 186
         \<or> (188 \<le> n \<and> n \<le> 190) \<or> (192 \<le> n \<and> n \<le> 214) \<or> (216 \<le> n \<and> n \<le> 246)
         \<or> 248 \<le> n)"

definition word_before :: "char option \<Rightarrow> bool" where
  "word_before prev = (case prev of None \<Rightarrow> False | Some c \<Rightarrow> is_word_char c)"

definition word_after :: "string \<Rightarrow> bool" where
  "word_after s = (case s of [] \<Rightarrow> False | c # _ \<Rightarrow> is_word_char c)"

text \<open>
  \<open>match_here r prev s\<close>: the sequence \<open>r\<close> matches at the current position, where \<open>prev\<close>
  is the character just before it and \<open>s\<close> the rest of the text.
\<close>

fun match_here :: "re_atom list \<Rightarrow> char option \<Rightarrow> string \<Rightarrow> bool" where
  "match_here [] prev s = True"
| "match_here (WordBoundary # r) prev s = (word_before prev \<noteq> word_after s \<and> match_here r prev s)"
| "match_here (Lit c # r) prev [] = False"
| "match_here (Lit c # r) prev (x # s) = (x = c \<and> match_here r (Some x) s)"

fun search_from :: "re_atom list \<Rightarrow> char option \<Rightarrow> string \<Rightarrow> bool" where
  "search_from r prev [] = match_here r prev []"
| "search_from r prev (x # s) = (match_here r prev (x # s) \<or> search_from r (Some x) s)"

text \<open>\<^verbatim>\<open>re.search(pattern, s)\<close> as a truth value: some alternative matches somewhere.\<close>

definition re_search :: "regex \<Rightarrow> string \<Rightarrow> bool" where
  "re_search p s = list_ex (\<lambda>r. search_from r None s) p"

text \<open>\<^verbatim>\<open>\bTEXT\b\<close>\<close>

definition bounded :: "string \<Rightarrow> re_atom list" where
  "bounded w = WordBoundary # map Lit w @ [WordBoundary]"

section \<open>Condition classifier\<close>

datatype StandardCondition = NEW | LIKE_NEW | VERY_GOOD | GOOD | ACCEPTABLE | POOR

text \<open>The \<^verbatim>\<open>.name\<close> of an enum member.\<close>

fun condition_name :: "StandardCondition \<Rightarrow> string" where
  "condition_name NEW = ''NEW''"
| "condition_name LIKE_NEW = ''LIKE_NEW''"
| "condition_name VERY_GOOD = ''VERY_GOOD''"
| "condition_name GOOD = ''GOOD''"
| "condition_name ACCEPTABLE = ''ACCEPTABLE''"
| "condition_name POOR = ''POOR''"

definition condition_mapping :: "(regex \<times> StandardCondition) list" where
  "condition_mapping =
     [([bounded ''like new''], LIKE_NEW),
      ([bounded ''brand new''], NEW),
      ([bounded ''new''], NEW),
      ([bounded ''very good''], VERY_GOOD),
      ([bounded ''good''], GOOD),
      ([bounded ''acceptable''], ACCEPTABLE),
      ([bounded ''poor'', bounded ''has flaws''], POOR)]"

text \<open>The loop over the table: the first pattern found decides; \<open>GOOD\<close> when none is.\<close>

fun first_match :: "(regex \<times> StandardCondition) list \<Rightarrow> string \<Rightarrow> StandardCondition" where
  "first_match [] s = GOOD"
| "first_match ((pattern, condition) # rest) s =
     (if re_search pattern s then condition else first_match rest s)"

definition normalize_condition :: "pyval \<Rightarrow> pyerr + StandardCondition" where
  "normalize_condition mercari_condition =
     (case py_lower mercari_condition of
        Inl e \<Rightarrow> Inl e
      | Inr normalized_condition \<Rightarrow> Inr (first_match condition_mapping normalized_condition))"

section \<open>Numeric coercion\<close>

text \<open>
  Rounding to binary64. \<open>round_binary64 neg a b\<close> is the float nearest to the fraction
  \<open>a / b\<close> (with \<open>b\<close> positive), ties going to the even significand, with the sign \<open>neg\<close>:
  the significand has 53 bits, the least exponent is that of the subnormals
  (a unit in the last place of \<open>2 ^ -1074\<close>), a magnitude that rounds to \<open>2 ^ 1024\<close> or more
  is an infinity, and one that rounds to nothing is a zero of that sign.
\<close>

function bit_length :: "int \<Rightarrow> int" where
  "bit_length n = (if n \<le> 0 then 0 else 1 + bit_length (n div 2))"
  by pat_completeness auto
termination
  by (relation "measure nat") auto

declare bit_length.simps [simp del]

definition pow2 :: "int \<Rightarrow> rat" where
  "pow2 k = (if 0 \<le> k then 2 ^ nat k else 1 / 2 ^ nat (- k))"

text \<open>The integer \<open>e\<close> with \<open>2 ^ e \<le> a / b < 2 ^ (e + 1)\<close>, for positive \<open>a\<close> and \<open>b\<close>.\<close>

definition floor_log2 :: "int \<Rightarrow> int \<Rightarrow> int" where
  "floor_log2 a b =
     (let e = bit_length a - bit_length b
      in if (if 0 \<le> e then b * 2 ^ nat e \<le> a else b \<le> a * 2 ^ nat (- e)) then e else e - 1)"

text \<open>The integer nearest to \<open>num / den\<close>, the even one of two equally near.\<close>

definition round_half_even :: "int \<Rightarrow> int \<Rightarrow> int" where
  "round_half_even num den =
     (let q = num div den; r = num mod den
      in if 2 * r < den then q else if den < 2 * r then q + 1 else if even q then q else q + 1)"

definition round_binary64 :: "bool \<Rightarrow> int \<Rightarrow> int \<Rightarrow> pyfloat" where
  "round_binary64 neg a b =
     (if a = 0 then (if neg then NegZero else Finite 0)
      else
        let s = max (floor_log2 a b) (- 1022) - 52;
            n = (if 0 \<le> s then round_half_even a (b * 2 ^ nat s)
                 else round_half_even (a * 2 ^ nat (- s)) b)
        in if n = 0 then (if neg then NegZero else Finite 0)
           else if 2 ^ 1024 \<le> of_int n * pow2 s then Infinity neg
           else Finite ((if neg then - 1 else 1) * of_int n * pow2 s))"

text \<open>
  \<^verbatim>\<open>float(x)\<close>. A string is stripped of white space and read by the grammar
  \<^verbatim>\<open>[sign] (floatnumber | "inf" | "infinity" | "nan")\<close>, where
  \<^verbatim>\<open>floatnumber = ([digitpart] "." digitpart | digitpart ["."]) [("e"|"E") [sign] digitpart]\<close>
  and \<^verbatim>\<open>digitpart = digit (["_"] digit)*\<close>; anything else is a \<^verbatim>\<open>ValueError\<close>. The number
  read is rounded to binary64. An int is rounded likewise, and one that would round to an
  infinity is an \<^verbatim>\<open>OverflowError\<close>; a float is returned as it is; \<^verbatim>\<open>None\<close>, a list and a
  dict are a \<^verbatim>\<open>TypeError\<close>.
\<close>

definition is_space :: "char \<Rightarrow> bool" where
  "is_space c = (let n = (of_char c :: nat) in (9 \<le> n \<and> n \<le> 13) \<or> n = 32 \<or> n = 133 \<or> n = 160)"

definition strip :: "string \<Rightarrow> string" where
  "strip s = rev (dropWhile is_space (rev (dropWhile is_space s)))"

definition is_digit :: "char \<Rightarrow> bool" where
  "is_digit c = (let n = (of_char c :: nat) in 48 \<le> n \<and> n \<le> 57)"

definition digits_value :: "string \<Rightarrow> int" where
  "digits_value ds = foldl (\<lambda>a c. 10 * a + (int (of_char c) - 48)) 0 ds"

fun digitpart_tail :: "string \<Rightarrow> string \<times> string" where
  "digitpart_tail [] = ([], [])"
| "digitpart_tail [c] = (if is_digit c then ([c], []) else ([], [c]))"
| "digitpart_tail (c # d # s) =
     (if is_digit c then (case digitpart_tail (d # s) of (ds, r) \<Rightarrow> (c # ds, r))
      else if c = CHR ''_'' \<and> is_digit d then (case digitpart_tail s of (ds, r) \<Rightarrow> (d # ds, r))
      else ([], c # d # s))"

definition digitpart :: "string \<Rightarrow> (string \<times> string) option" where
  "digitpart s =
     (case s of
        [] \<Rightarrow> None
      | c # s' \<Rightarrow> if is_digit c then (case digitpart_tail s' of (ds, r) \<Rightarrow> Some (c # ds, r)) else None)"

text \<open>The integer digits, the fraction digits and the rest of the text.\<close>

definition number_part :: "string \<Rightarrow> (string \<times> string \<times> string) option" where
  "number_part s =
     (case digitpart s of
        Some (ip, r) \<Rightarrow>
          (case r of
             [] \<Rightarrow> Some (ip, [], r)
           | c # r' \<Rightarrow>
               if c = CHR ''.'' then
                 (case digitpart r' of Some (fp, r'') \<Rightarrow> Some (ip, fp, r'') | None \<Rightarrow> Some (ip, [], r'))
               else Some (ip, [], r))
      | None \<Rightarrow>
          (case s of
             [] \<Rightarrow> None
           | c # r' \<Rightarrow>
               if c = CHR ''.'' then
                 (case digitpart r' of Some (fp, r'') \<Rightarrow> Some ([], fp, r'') | None \<Rightarrow> None)
               else None))"

definition split_sign :: "string \<Rightarrow> bool \<times> string" where
  "split_sign s =
     (case s of
        [] \<Rightarrow> (False, s)
      | c # r \<Rightarrow> if c = CHR ''-'' then (True, r) else if c = CHR ''+'' then (False, r) else (False, s))"

definition exponent_part :: "string \<Rightarrow> int option" where
  "exponent_part s =
     (case s of
        [] \<Rightarrow> Some 0
      | c # r \<Rightarrow>
          if c = CHR ''e'' \<or> c = CHR ''E'' then
            (case split_sign r of
               (neg, r') \<Rightarrow>
                 (case digitpart r' of
                    Some (ds, rest) \<Rightarrow>
                      if rest = [] then Some (if neg then - digits_value ds else digits_value ds)
                      else None
                  | None \<Rightarrow> None))
          else None)"

text \<open>The float nearest to \<open>m * 10 ^ e\<close>, for \<open>m\<close> not negative, with the sign \<open>neg\<close>.\<close>

definition scale10 :: "bool \<Rightarrow> int \<Rightarrow> int \<Rightarrow> pyfloat" where
  "scale10 neg m e =
     (if 0 \<le> e then round_binary64 neg (m * 10 ^ nat e) 1
      else round_binary64 neg m (10 ^ nat (- e)))"

definition float_of_str :: "string \<Rightarrow> pyfloat option" where
  "float_of_str s =
     (case split_sign (strip s) of
        (neg, u) \<Rightarrow>
          if lower u = ''inf'' \<or> lower u = ''infinity'' then Some (Infinity neg)
          else if lower u = ''nan'' then Some NaN
          else
            (case number_part u of
               None \<Rightarrow> None
             | Some (ip, fp, r) \<Rightarrow>
                 (case exponent_part r of
                    None \<Rightarrow> None
                  | Some e \<Rightarrow>
                      Some (scale10 neg (digits_value (ip @ fp)) (e - int (length fp))))))"

fun py_float :: "pyval \<Rightarrow> pyerr + pyfloat" where
  "py_float PNone = Inl TypeError"
| "py_float (PBool b) = Inr (Finite (if b then 1 else 0))"
| "py_float (PInt i) =
     (case round_binary64 (i < 0) \<bar>i\<bar> 1 of
        Infinity neg \<Rightarrow> Inl OverflowError
      | f \<Rightarrow> Inr f)"
| "py_float (PFloat f) = Inr f"
| "py_float (PStr s) = (case float_of_str s of None \<Rightarrow> Inl ValueError | Some f \<Rightarrow> Inr f)"
| "py_float (PList xs) = Inl TypeError"
| "py_float (PDict d) = Inl TypeError"

section \<open>Seller info\<close>

definition extract_seller_info :: "pydict \<Rightarrow> pydict" where
  "extract_seller_info listing_data =
     [(''seller_name'', dict_get listing_data ''seller_username'' (PStr ''Unknown'')),
      (''seller_rating'', dict_get listing_data ''seller_rating'' PNone),
      (''total_sales'', dict_get listing_data ''seller_total_sales'' (PInt 0)),
      (''joined_date'', dict_get listing_data ''seller_join_date'' PNone)]"

section \<open>Brand\<close>

text \<open>
  The methods \<^verbatim>\<open>_extract_brand\<close>, \<^verbatim>\<open>_find_brand_in_title\<close> and
  \<^verbatim>\<open>_find_brand_in_description\<close> appear without their leading underscore.
\<close>

definition brands :: "string list" where
  "brands = [''Nike'', ''Adidas'', ''Apple'', ''Samsung'', ''Sony'']"

text \<open>
  The loop \<^verbatim>\<open>for brand in brands: if brand.lower() in text.lower(): return brand\<close>,
  with \<^verbatim>\<open>return None\<close> after it.
\<close>

fun scan_brands :: "string list \<Rightarrow> pyval \<Rightarrow> pyerr + pyval" where
  "scan_brands [] text = Inr PNone"
| "scan_brands (brand # rest) text =
     (case py_lower text of
        Inl e \<Rightarrow> Inl e
      | Inr t \<Rightarrow> if str_contains t (lower brand) then Inr (PStr brand) else scan_brands rest text)"

definition find_brand_in_title :: "pyval \<Rightarrow> pyerr + pyval" where
  "find_brand_in_title title = scan_brands brands title"

definition find_brand_in_description :: "pyval \<Rightarrow> pyerr + pyval" where
  "find_brand_in_description description = scan_brands brands description"

text \<open>\<^verbatim>\<open>next((brand for brand in brand_candidates if brand), None)\<close>\<close>

fun first_truthy :: "pyval list \<Rightarrow> pyval" where
  "first_truthy [] = PNone"
| "first_truthy (brand # rest) = (if truthy brand then brand else first_truthy rest)"

text \<open>The list of candidates is built in full before it is searched.\<close>

definition extract_brand :: "pydict \<Rightarrow> pyerr + pyval" where
  "extract_brand listing_data =
     (case find_brand_in_title (dict_get listing_data ''title'' (PStr [])) of
        Inl e \<Rightarrow> Inl e
      | Inr from_title \<Rightarrow>
          (case find_brand_in_description (dict_get listing_data ''description'' (PStr [])) of
             Inl e \<Rightarrow> Inl e
           | Inr from_description \<Rightarrow>
               Inr (first_truthy [dict_get listing_data ''brand'' PNone, from_title, from_description])))"

section \<open>Listing normalizer\<close>

text \<open>
  The entries of the dict display are evaluated in the order written, so the first of
  \<^verbatim>\<open>float(price)\<close>, \<^verbatim>\<open>normalize_condition\<close>, \<^verbatim>\<open>_extract_brand\<close> and \<^verbatim>\<open>float(shipping_cost)\<close>
  that raises decides the exception.
\<close>

definition normalize_listing :: "pydict \<Rightarrow> pyerr + pydict" where
  "normalize_listing mercari_listing =
     (case py_float (dict_get mercari_listing ''price'' (PInt 0)) of
        Inl e \<Rightarrow> Inl e
      | Inr price \<Rightarrow>
     (case normalize_condition (dict_get mercari_listing ''condition'' (PStr ''Unknown'')) of
        Inl e \<Rightarrow> Inl e
      | Inr condition \<Rightarrow>
     (case extract_brand mercari_listing of
        Inl e \<Rightarrow> Inl e
      | Inr brand \<Rightarrow>
     (case py_float (dict_get mercari_listing ''shipping_cost'' (PInt 0)) of
        Inl e \<Rightarrow> Inl e
      | Inr shipping_cost \<Rightarrow>
          Inr [(''platform'', PStr ''Mercari''),
               (''platform_id'', dict_get mercari_listing ''id'' PNone),
               (''title'', dict_get mercari_listing ''title'' (PStr [])),
               (''description'', dict_get mercari_listing ''description'' (PStr [])),
               (''price'', PFloat price),
               (''images'', dict_get mercari_listing ''image_urls'' (PList [])),
               (''condition'', PStr (condition_name condition)),
               (''seller_info'', PDict (extract_seller_info mercari_listing)),
               (''category'', dict_get mercari_listing ''category'' (PStr ''Unknown'')),
               (''brand'', brand),
               (''shipping_cost'', PFloat shipping_cost),
               (''shipping_method'', dict_get mercari_listing ''shipping_method'' (PStr ''Unknown'')),
               (''url'', dict_get mercari_listing ''listing_url'' PNone)]))))"

section \<open>Objects of a canonical record\<close>









section \<open>Search client\<close>

text \<open>
  The network is a parameter: \<open>requests_get\<close> gives, for the request sent, either the
  exception \<^verbatim>\<open>requests.get\<close> raises or the response. Every exception of the
  \<^verbatim>\<open>requests\<close> library (connection error, timeout, \<^verbatim>\<open>HTTPError\<close>) is a
  \<open>RequestException\<close>. \<open>json_body\<close> is what \<^verbatim>\<open>response.json()\<close> returns or raises.
  \<open>format_value\<close> is the text an f-string puts for a value. The logger's output is
  returned beside the result.
\<close>

record mercari_search =
  base_url :: string
  api_key :: "string option"

definition init :: "string option \<Rightarrow> mercari_search" where
  "init key = \<lparr>base_url = ''https://api.mercari.com/v2/search'', api_key = key\<rparr>"

record request =
  req_url :: string
  req_params :: pydict
  req_headers :: "(string \<times> string) list"

record response =
  status_code :: nat
  json_body :: "pyerr + pyval"

datatype log_record = LogInfo nat | LogError pyerr

definition condition_map :: "(string \<times> string) list" where
  "condition_map = [(''new'', ''1''), (''like_new'', ''2''), (''good'', ''3''), (''fair'', ''4'')]"

definition search_params ::
  "string \<Rightarrow> string option \<Rightarrow> string option \<Rightarrow> pyval option \<Rightarrow> pyval option \<Rightarrow> bool \<Rightarrow> pydict" where
  "search_params keywords category condition min_price max_price include_sold =
     [(''keyword'', PStr keywords), (''limit'', PInt 100)]
     @ (case category of
          None \<Rightarrow> []
        | Some c \<Rightarrow> if c \<noteq> [] then [(''category_id'', PStr c)] else [])
     @ (case condition of
          None \<Rightarrow> []
        | Some c \<Rightarrow>
            if c \<noteq> [] then
              [(''condition'', PStr (case map_of condition_map (lower c) of None \<Rightarrow> c | Some code \<Rightarrow> code))]
            else [])
     @ (case min_price of None \<Rightarrow> [] | Some v \<Rightarrow> [(''price_min'', v)])
     @ (case max_price of None \<Rightarrow> [] | Some v \<Rightarrow> [(''price_max'', v)])
     @ (if \<not> include_sold then [(''status'', PStr ''on_sale'')] else [])"

definition search_headers :: "mercari_search \<Rightarrow> (string \<times> string) list" where
  "search_headers self =
     [(''Authorization'',
        (case api_key self of
           None \<Rightarrow> []
         | Some k \<Rightarrow> if k \<noteq> [] then ''Bearer '' @ k else [])),
      (''Content-Type'', ''application/json'')]"

definition search_request ::
  "mercari_search \<Rightarrow> string \<Rightarrow> string option \<Rightarrow> string option \<Rightarrow> pyval option \<Rightarrow> pyval option
     \<Rightarrow> bool \<Rightarrow> request" where
  "search_request self keywords category condition min_price max_price include_sold =
     \<lparr>req_url = base_url self,
      req_params = search_params keywords category condition min_price max_price include_sold,
      req_headers = search_headers self\<rparr>"

text \<open>\<^verbatim>\<open>response.raise_for_status()\<close>: an \<^verbatim>\<open>HTTPError\<close> for a 4xx or 5xx status.\<close>

definition raise_for_status :: "response \<Rightarrow> pyerr + unit" where
  "raise_for_status r =
     (if 400 \<le> status_code r \<and> status_code r < 600 then Inl RequestException else Inr ())"

text \<open>The method call \<^verbatim>\<open>x.get(k, default)\<close> on an arbitrary object: only a dict has it.\<close>

fun py_get :: "pyval \<Rightarrow> string \<Rightarrow> pyval \<Rightarrow> pyerr + pyval" where
  "py_get (PDict d) k dflt = Inr (dict_get d k dflt)"
| "py_get v k dflt = Inl AttributeError"

text \<open>The elements a \<^verbatim>\<open>for\<close> loop draws from an object.\<close>

fun py_iter :: "pyval \<Rightarrow> pyerr + pyval list" where
  "py_iter (PList xs) = Inr xs"
| "py_iter (PDict d) = Inr (map (\<lambda>kv. PStr (fst kv)) d)"
| "py_iter (PStr s) = Inr (map (\<lambda>c. PStr [c]) s)"
| "py_iter v = Inl TypeError"

definition process_item :: "(pyval \<Rightarrow> string) \<Rightarrow> pyval \<Rightarrow> pyerr + pydict" where
  "process_item format_value item =
     (case item of
        PDict d \<Rightarrow>
          Inr [(''id'', dict_get d ''id'' PNone),
               (''title'', dict_get d ''name'' PNone),
               (''price'', dict_get d ''price'' PNone),
               (''condition'', dict_get d ''condition_description'' PNone),
               (''url'', PStr (''https://mercari.com/item/'' @ format_value (dict_get d ''id'' PNone))),
               (''is_sold'', PBool (dict_get d ''status'' PNone = PStr ''sold''))]
      | _ \<Rightarrow> Inl AttributeError)"

fun process_items :: "(pyval \<Rightarrow> string) \<Rightarrow> pyval list \<Rightarrow> pyerr + pydict list" where
  "process_items format_value [] = Inr []"
| "process_items format_value (item # rest) =
     (case process_item format_value item of
        Inl e \<Rightarrow> Inl e
      | Inr r \<Rightarrow>
          (case process_items format_value rest of
             Inl e \<Rightarrow> Inl e
           | Inr rs \<Rightarrow> Inr (r # rs)))"

text \<open>The body of the \<^verbatim>\<open>try\<close> block.\<close>

definition search_try ::
  "(pyval \<Rightarrow> string) \<Rightarrow> (request \<Rightarrow> pyerr + response) \<Rightarrow> request \<Rightarrow> pyerr + pydict list" where
  "search_try format_value requests_get req =
     (case requests_get req of
        Inl e \<Rightarrow> Inl e
      | Inr resp \<Rightarrow>
     (case raise_for_status resp of
        Inl e \<Rightarrow> Inl e
      | Inr u \<Rightarrow>
     (case json_body resp of
        Inl e \<Rightarrow> Inl e
      | Inr body \<Rightarrow>
     (case py_get body ''items'' (PList []) of
        Inl e \<Rightarrow> Inl e
      | Inr results \<Rightarrow>
     (case py_iter results of
        Inl e \<Rightarrow> Inl e
      | Inr items \<Rightarrow> process_items format_value items)))))"

text \<open>\<^verbatim>\<open>except requests.RequestException\<close> turns that exception, and no other, into \<^verbatim>\<open>[]\<close>.\<close>

definition search ::
  "(pyval \<Rightarrow> string) \<Rightarrow> (request \<Rightarrow> pyerr + response) \<Rightarrow> mercari_search \<Rightarrow> string
     \<Rightarrow> string option \<Rightarrow> string option \<Rightarrow> pyval option \<Rightarrow> pyval option \<Rightarrow> bool
     \<Rightarrow> log_record list \<times> (pyerr + pydict list)" where
  "search format_value requests_get self keywords category condition min_price max_price include_sold =
     (case search_try format_value requests_get
             (search_request self keywords category condition min_price max_price include_sold) of
        Inr processed_results \<Rightarrow> ([LogInfo (length processed_results)], Inr processed_results)
      | Inl e \<Rightarrow> if e = RequestException then ([LogError e], Inr []) else ([], Inl e))"

section \<open>Notions of the specification\<close>

text \<open>
  The phrase \<open>w\<close> stands in \<open>s\<close> as a whole phrase, in any letter case: \<open>s\<close> is cut into a
  part before, a part that lower-cases to \<open>w\<close>, and a part after, and no word character
  touches the middle part.
\<close>

definition whole_phrase_in :: "string \<Rightarrow> string \<Rightarrow> bool" where
  "whole_phrase_in w s =
     (\<exists>p m q. s = p @ m @ q \<and> lower m = w
        \<and> (p = [] \<or> \<not> is_word_char (last p)) \<and> (q = [] \<or> \<not> is_word_char (hd q)))"

text \<open>The value is a \<^verbatim>\<open>str\<close>.\<close>

fun is_str :: "pyval \<Rightarrow> bool" where
  "is_str (PStr s) = True"
| "is_str v = False"

text \<open>\<open>sub\<close> occurs in \<open>s\<close> as a run of consecutive characters.\<close>

definition is_substring :: "string \<Rightarrow> string \<Rightarrow> bool" where
  "is_substring sub s = (\<exists>p q. s = p @ sub @ q)"

text \<open>
  The scan as the specification words it: the first entry of the brand list, in the
  list's own order, that occurs in the text when letter case is ignored; \<open>None\<close> when no
  entry does.
\<close>

definition first_listed_brand :: "string \<Rightarrow> pyval" where
  "first_listed_brand text =
     (case find (\<lambda>brand. is_substring (lower brand) (lower text)) brands of
        None \<Rightarrow> PNone
      | Some brand \<Rightarrow> PStr brand)"

section \<open>Properties of the condition classifier\<close>

lemma lower_append: "lower (a @ b) = lower a @ lower b"
  by (simp add: lower_def)

lemma is_word_lower_char: "is_word_char (lower_char c) = is_word_char c"
proof -
  have "of_char c < (256::nat)" by simp
  then show ?thesis
    unfolding is_word_char_def lower_char_def Let_def
    by (auto simp: of_char_of)
qed

lemma match_here_lits:
  "match_here (map Lit w @ r) prev (w @ q) = match_here r (if w = [] then prev else Some (last w)) q"
  by (induction w arbitrary: prev) auto

lemma match_imp_search: "match_here r prev t \<Longrightarrow> search_from r prev t"
  by (cases t) auto

lemma search_from_append:
  "match_here r (if p = [] then prev else Some (last p)) t \<Longrightarrow> search_from r prev (p @ t)"
proof (induction p arbitrary: prev)
  case Nil
  then show ?case by (simp add: match_imp_search)
next
  case (Cons a p)
  have "match_here r (if p = [] then Some a else Some (last p)) t"
    using Cons.prems by (cases "p = []") simp_all
  then have "search_from r (Some a) (p @ t)"
    by (rule Cons.IH)
  then show ?case by simp
qed

lemma search_bounded:
  assumes w: "w \<noteq> []" "is_word_char (hd w)" "is_word_char (last w)"
    and p: "p = [] \<or> \<not> is_word_char (last p)"
    and q: "q = [] \<or> \<not> is_word_char (hd q)"
  shows "search_from (bounded w) None (p @ w @ q)"
proof (rule search_from_append)
  let ?prev = "if p = [] then None else Some (last p)"
  have a: "\<not> word_before ?prev"
    using p by (auto simp: word_before_def)
  have b: "word_after (w @ q)"
    using w by (cases w) (auto simp: word_after_def)
  have c: "word_before (Some (last w))"
    using w by (simp add: word_before_def)
  have d: "\<not> word_after q"
    using q by (cases q) (auto simp: word_after_def)
  have "match_here (map Lit w @ [WordBoundary]) ?prev (w @ q)"
    unfolding match_here_lits using w c d by simp
  then show "match_here (bounded w) ?prev (w @ q)"
    using a b by (simp add: bounded_def)
qed

lemma whole_phrase_search:
  assumes "whole_phrase_in w s" "w \<noteq> []" "is_word_char (hd w)" "is_word_char (last w)"
  shows "re_search [bounded w] (lower s)"
proof -
  from assms(1) obtain p m q where s: "s = p @ m @ q" and m: "lower m = w"
    and p: "p = [] \<or> \<not> is_word_char (last p)" and q: "q = [] \<or> \<not> is_word_char (hd q)"
    unfolding whole_phrase_in_def by blast
  have p': "lower p = [] \<or> \<not> is_word_char (last (lower p))"
    using p by (auto simp: lower_def last_map is_word_lower_char)
  have q': "lower q = [] \<or> \<not> is_word_char (hd (lower q))"
    using q by (auto simp: lower_def hd_map is_word_lower_char)
  have "search_from (bounded w) None (lower p @ w @ lower q)"
    using search_bounded [OF assms(2-4) p' q'] .
  then show ?thesis
    by (simp add: re_search_def s lower_append m)
qed

lemma like_new_wordy: "''like new'' \<noteq> [] \<and> is_word_char (hd ''like new'') \<and> is_word_char (last ''like new'')"
  by code_simp

text \<open>
  C2. Every condition text in which "like new" stands as a whole phrase, in any letter
  case, is classified \<open>LIKE_NEW\<close>, whatever else the text holds (the word "new" or
  "brand new" elsewhere included): its pattern is tried first.
\<close>

theorem like_new_precedence:
  "whole_phrase_in ''like new'' s \<Longrightarrow> normalize_condition (PStr s) = Inr LIKE_NEW"
  using whole_phrase_search [of "''like new''" s] like_new_wordy
  by (simp add: normalize_condition_def condition_mapping_def)

theorem like_new_precedence_witness:
  "whole_phrase_in ''like new'' ''New box, item is Like New!''
   \<and> normalize_condition (PStr ''New box, item is Like New!'') = Inr LIKE_NEW"
proof -
  have h: "whole_phrase_in ''like new'' ''New box, item is Like New!''"
    unfolding whole_phrase_in_def
    by (rule exI [of _ "''New box, item is ''"], rule exI [of _ "''Like New''"],
        rule exI [of _ "''!''"]) code_simp
  show ?thesis
    using h like_new_precedence [OF h] by simp
qed

lemma first_match_default:
  "\<forall>(pattern, condition) \<in> set tbl. \<not> re_search pattern s \<Longrightarrow> first_match tbl s = GOOD"
  by (induction tbl) auto



section \<open>Properties of the seller projection\<close>

text \<open>
  C1, as the specification states it, names the fields of the result \<open>name\<close> and
  \<open>rating\<close>. The dict the code returns has no such keys: it is not the dict of the
  specification, on the empty record already.
\<close>

theorem extract_seller_info_keys_counterexample:
  "map_of (extract_seller_info []) ''name'' = None
   \<and> map_of (extract_seller_info []) ''rating'' = None
   \<and> map_of (extract_seller_info [])
       \<noteq> map_of [(''name'', PStr ''Unknown''), (''rating'', PNone),
                  (''total_sales'', PInt 0), (''joined_date'', PNone)]"
proof -
  have a: "map_of (extract_seller_info []) ''name'' = None" by code_simp
  have b: "map_of (extract_seller_info []) ''rating'' = None" by code_simp
  have c: "map_of [(''name'', PStr ''Unknown''), (''rating'', PNone),
                  (''total_sales'', PInt 0), (''joined_date'', PNone)] ''name'' \<noteq> None"
    by simp
  from a c have "map_of (extract_seller_info [])
       \<noteq> map_of [(''name'', PStr ''Unknown''), (''rating'', PNone),
                  (''total_sales'', PInt 0), (''joined_date'', PNone)]"
    by metis
  with a b show ?thesis by blast
qed

text \<open>
  C1, amended. The result has exactly the keys \<open>seller_name\<close>, \<open>seller_rating\<close>,
  \<open>total_sales\<close> and \<open>joined_date\<close>, holding the record's \<open>seller_username\<close> (default
  "Unknown"), \<open>seller_rating\<close> (default \<open>None\<close>), \<open>seller_total_sales\<close> (default 0) and
  \<open>seller_join_date\<close> (default \<open>None\<close>); on the empty record it is
  \<open>{seller_name: "Unknown", seller_rating: None, total_sales: 0, joined_date: None}\<close>.
\<close>

theorem extract_seller_info_projection:
  "extract_seller_info [] =
     [(''seller_name'', PStr ''Unknown''), (''seller_rating'', PNone),
      (''total_sales'', PInt 0), (''joined_date'', PNone)]
   \<and> map fst (extract_seller_info raw) = [''seller_name'', ''seller_rating'', ''total_sales'', ''joined_date'']
   \<and> map_of (extract_seller_info raw) ''seller_name''
       = Some (case map_of raw ''seller_username'' of None \<Rightarrow> PStr ''Unknown'' | Some v \<Rightarrow> v)
   \<and> map_of (extract_seller_info raw) ''seller_rating''
       = Some (case map_of raw ''seller_rating'' of None \<Rightarrow> PNone | Some v \<Rightarrow> v)
   \<and> map_of (extract_seller_info raw) ''total_sales''
       = Some (case map_of raw ''seller_total_sales'' of None \<Rightarrow> PInt 0 | Some v \<Rightarrow> v)
   \<and> map_of (extract_seller_info raw) ''joined_date''
       = Some (case map_of raw ''seller_join_date'' of None \<Rightarrow> PNone | Some v \<Rightarrow> v)"
  by (simp add: extract_seller_info_def dict_get_def)

section \<open>Properties of the brand scan\<close>

lemma starts_with_iff: "starts_with s sub \<longleftrightarrow> (\<exists>q. s = sub @ q)"
  by (induction s sub rule: starts_with.induct) auto

lemma str_contains_iff: "str_contains s sub \<longleftrightarrow> is_substring sub s"
proof (induction s)
  case Nil
  then show ?case by (auto simp: is_substring_def)
next
  case (Cons x s)
  have "is_substring sub (x # s) \<longleftrightarrow> (\<exists>q. x # s = sub @ q) \<or> is_substring sub s"
    unfolding is_substring_def
    by (auto simp: Cons_eq_append_conv)
  then show ?case
    using Cons.IH by (simp add: starts_with_iff)
qed

lemma scan_brands_str:
  "scan_brands bs (PStr t) =
     Inr (case find (\<lambda>brand. is_substring (lower brand) (lower t)) bs of
            None \<Rightarrow> PNone | Some brand \<Rightarrow> PStr brand)"
  by (induction bs) (simp_all add: str_contains_iff)

lemma scan_brands_not_str:
  "\<not> is_str v \<Longrightarrow> bs \<noteq> [] \<Longrightarrow> scan_brands bs v = Inl AttributeError"
  by (cases v; cases bs) simp_all

lemma scan_brands_range:
  "scan_brands bs v = Inr r \<Longrightarrow> r = PNone \<or> r \<in> PStr ` set bs"
  by (induction bs) (auto split: sum.splits if_splits)

section \<open>Properties of the listing normalizer\<close>


text \<open>
  C7. Whenever \<open>normalize_listing\<close> returns, the record returned has the thirteen keys
  \<open>platform\<close>, \<open>platform_id\<close>, \<open>title\<close>, \<open>description\<close>, \<open>price\<close>, \<open>images\<close>, \<open>condition\<close>,
  \<open>seller_info\<close>, \<open>category\<close>, \<open>brand\<close>, \<open>shipping_cost\<close>, \<open>shipping_method\<close> and \<open>url\<close>, each
  once and no other, whatever keys the raw record had, and \<open>platform\<close> is "Mercari".
\<close>

theorem normalize_listing_keys:
  "normalize_listing raw = Inr out \<Longrightarrow>
     map fst out = [''platform'', ''platform_id'', ''title'', ''description'', ''price'', ''images'',
                    ''condition'', ''seller_info'', ''category'', ''brand'', ''shipping_cost'',
                    ''shipping_method'', ''url'']
     \<and> distinct (map fst out) \<and> length out = 13
     \<and> map_of out ''platform'' = Some (PStr ''Mercari'')"
  by (auto simp: normalize_listing_def split: sum.splits)

theorem normalize_listing_keys_witness:
  "\<not> isl (normalize_listing [(''id'', PInt 7)])
   \<and> map fst (projr (normalize_listing [(''id'', PInt 7)]))
       = [''platform'', ''platform_id'', ''title'', ''description'', ''price'', ''images'',
          ''condition'', ''seller_info'', ''category'', ''brand'', ''shipping_cost'',
          ''shipping_method'', ''url'']
   \<and> map_of (projr (normalize_listing [(''id'', PInt 7)])) ''platform'' = Some (PStr ''Mercari'')"
proof -
  have "\<not> isl (normalize_listing [(''id'', PInt 7)])" by code_simp
  then obtain out where h: "normalize_listing [(''id'', PInt 7)] = Inr out"
    by (cases "normalize_listing [(''id'', PInt 7)]") auto
  show ?thesis
    using normalize_listing_keys [OF h] h by simp
qed

section \<open>Properties of brand resolution\<close>

lemma brands_set: "set brands = {''Nike'', ''Adidas'', ''Apple'', ''Samsung'', ''Sony''}"
  by (auto simp: brands_def)

lemma brands_nonempty: "brands \<noteq> []"
  by (simp add: brands_def)

lemma find_brand_in_title_str: "find_brand_in_title (PStr t) = Inr (first_listed_brand t)"
  by (simp add: find_brand_in_title_def first_listed_brand_def scan_brands_str)

lemma find_brand_in_description_str: "find_brand_in_description (PStr t) = Inr (first_listed_brand t)"
  by (simp add: find_brand_in_description_def first_listed_brand_def scan_brands_str)

lemma first_listed_brand_range:
  "first_listed_brand t = PNone \<or> first_listed_brand t \<in> PStr ` set brands"
  using scan_brands_range [of brands "PStr t" "first_listed_brand t"]
  by (simp add: first_listed_brand_def scan_brands_str)

lemma truthy_listed: "r \<in> PStr ` set brands \<Longrightarrow> truthy r"
  by (auto simp: brands_def)

lemma truthy_first_listed: "truthy (first_listed_brand t) \<longleftrightarrow> first_listed_brand t \<noteq> PNone"
  using first_listed_brand_range [of t] truthy_listed [of "first_listed_brand t"] by auto

lemma lower_nike: "lower ''Nike'' = ''nike''"
  by code_simp

lemma first_listed_nike:
  assumes "lower m = ''nike air max''"
  shows "first_listed_brand (p @ m @ q) = PStr ''Nike''"
proof -
  have "lower (p @ m @ q) = lower p @ ''nike'' @ ('' air max'' @ lower q)"
    using assms by (simp add: lower_append)
  then have "is_substring (lower ''Nike'') (lower (p @ m @ q))"
    unfolding is_substring_def lower_nike by blast
  then show ?thesis
    by (simp add: first_listed_brand_def brands_def)
qed

lemma extract_brand_str:
  assumes "dict_get raw ''title'' (PStr []) = PStr t" "dict_get raw ''description'' (PStr []) = PStr d"
  shows "extract_brand raw =
     Inr (first_truthy [dict_get raw ''brand'' PNone, first_listed_brand t, first_listed_brand d])"
  using assms
  by (simp add: extract_brand_def find_brand_in_title_str find_brand_in_description_str)

lemma extract_brand_error:
  "extract_brand raw = Inl e \<longleftrightarrow>
     (\<not> is_str (dict_get raw ''title'' (PStr [])) \<or> \<not> is_str (dict_get raw ''description'' (PStr [])))
     \<and> e = AttributeError"
proof (cases "is_str (dict_get raw ''title'' (PStr []))")
  case False
  then show ?thesis
    using scan_brands_not_str [OF False brands_nonempty]
    by (auto simp: extract_brand_def find_brand_in_title_def)
next
  case True
  then obtain t where t: "dict_get raw ''title'' (PStr []) = PStr t"
    by (cases "dict_get raw ''title'' (PStr [])") auto
  show ?thesis
  proof (cases "is_str (dict_get raw ''description'' (PStr []))")
    case False
    then show ?thesis
      using scan_brands_not_str [OF False brands_nonempty] t
      by (auto simp: extract_brand_def find_brand_in_title_str find_brand_in_description_def)
  next
    case True
    then obtain d where d: "dict_get raw ''description'' (PStr []) = PStr d"
      by (cases "dict_get raw ''description'' (PStr [])") auto
    show ?thesis
      using t d by (simp add: extract_brand_str)
  qed
qed

text \<open>
  C9. A brand that comes from the scan of the title or of the description is one of the five
  entries of the list, \<open>Nike\<close>, \<open>Adidas\<close>, \<open>Apple\<close>, \<open>Samsung\<close>, \<open>Sony\<close>, spelled as the list
  spells it and not as the text does: this holds for each scan, and for \<open>extract_brand\<close>
  whenever the explicit brand field is empty and the result is not \<open>None\<close>. A title that
  contains "nike air max" in any letter case resolves to \<open>Nike\<close>.
\<close>

theorem scanned_brand_canonical:
  "set brands = {''Nike'', ''Adidas'', ''Apple'', ''Samsung'', ''Sony''}
   \<and> (\<forall>r. find_brand_in_title v = Inr r \<and> r \<noteq> PNone
          \<longrightarrow> r \<in> PStr ` {''Nike'', ''Adidas'', ''Apple'', ''Samsung'', ''Sony''})
   \<and> (\<forall>r. find_brand_in_description v = Inr r \<and> r \<noteq> PNone
          \<longrightarrow> r \<in> PStr ` {''Nike'', ''Adidas'', ''Apple'', ''Samsung'', ''Sony''})
   \<and> (\<forall>r. extract_brand raw = Inr r \<and> \<not> truthy (dict_get raw ''brand'' PNone) \<and> r \<noteq> PNone
          \<longrightarrow> r \<in> PStr ` {''Nike'', ''Adidas'', ''Apple'', ''Samsung'', ''Sony''})
   \<and> (\<forall>p m q. lower m = ''nike air max''
          \<longrightarrow> find_brand_in_title (PStr (p @ m @ q)) = Inr (PStr ''Nike''))
   \<and> (\<forall>p m q. lower m = ''nike air max'' \<and> dict_get raw ''title'' (PStr []) = PStr (p @ m @ q)
            \<and> is_str (dict_get raw ''description'' (PStr []))
            \<and> \<not> truthy (dict_get raw ''brand'' PNone)
          \<longrightarrow> extract_brand raw = Inr (PStr ''Nike''))"
proof -
  have a: "\<forall>r. find_brand_in_title v = Inr r \<and> r \<noteq> PNone \<longrightarrow> r \<in> PStr ` set brands"
    using scan_brands_range [of brands v] by (auto simp: find_brand_in_title_def)
  have b: "\<forall>r. find_brand_in_description v = Inr r \<and> r \<noteq> PNone \<longrightarrow> r \<in> PStr ` set brands"
    using scan_brands_range [of brands v] by (auto simp: find_brand_in_description_def)
  have c: "\<forall>r. extract_brand raw = Inr r \<and> \<not> truthy (dict_get raw ''brand'' PNone) \<and> r \<noteq> PNone
          \<longrightarrow> r \<in> PStr ` set brands"
  proof (intro allI impI)
    fix r
    assume h: "extract_brand raw = Inr r \<and> \<not> truthy (dict_get raw ''brand'' PNone) \<and> r \<noteq> PNone"
    then obtain x y where x: "find_brand_in_title (dict_get raw ''title'' (PStr [])) = Inr x"
      and y: "find_brand_in_description (dict_get raw ''description'' (PStr [])) = Inr y"
      and r: "r = first_truthy [dict_get raw ''brand'' PNone, x, y]"
      by (auto simp: extract_brand_def split: sum.splits)
    have "x = PNone \<or> x \<in> PStr ` set brands"
      using x scan_brands_range by (auto simp: find_brand_in_title_def)
    moreover have "y = PNone \<or> y \<in> PStr ` set brands"
      using y scan_brands_range by (auto simp: find_brand_in_description_def)
    ultimately show "r \<in> PStr ` set brands"
      using h r by (auto split: if_splits)
  qed
  have d: "\<forall>p m q. lower m = ''nike air max''
          \<longrightarrow> find_brand_in_title (PStr (p @ m @ q)) = Inr (PStr ''Nike'')"
    by (simp add: find_brand_in_title_str first_listed_nike)
  have e: "\<forall>p m q. lower m = ''nike air max'' \<and> dict_get raw ''title'' (PStr []) = PStr (p @ m @ q)
            \<and> is_str (dict_get raw ''description'' (PStr []))
            \<and> \<not> truthy (dict_get raw ''brand'' PNone)
          \<longrightarrow> extract_brand raw = Inr (PStr ''Nike'')"
  proof (intro allI impI)
    fix p m q
    assume h: "lower m = ''nike air max'' \<and> dict_get raw ''title'' (PStr []) = PStr (p @ m @ q)
            \<and> is_str (dict_get raw ''description'' (PStr []))
            \<and> \<not> truthy (dict_get raw ''brand'' PNone)"
    then obtain ds where ds: "dict_get raw ''description'' (PStr []) = PStr ds"
      by (cases "dict_get raw ''description'' (PStr [])") auto
    show "extract_brand raw = Inr (PStr ''Nike'')"
      using h ds by (simp add: extract_brand_str first_listed_nike)
  qed
  from a b c d e show ?thesis
    unfolding brands_set by (intro conjI refl) 
qed

theorem scanned_brand_canonical_witness:
  "\<not> truthy (dict_get [(''title'', PStr ''Vintage NIKE Air Max 90'')] ''brand'' PNone)
   \<and> lower ''NIKE Air Max'' = ''nike air max''
   \<and> extract_brand [(''title'', PStr ''Vintage NIKE Air Max 90'')] = Inr (PStr ''Nike'')
   \<and> PStr ''Nike'' \<in> PStr ` {''Nike'', ''Adidas'', ''Apple'', ''Samsung'', ''Sony''}"
proof -
  let ?raw = "[(''title'', PStr ''Vintage NIKE Air Max 90'')]"
  have a: "\<not> truthy (dict_get ?raw ''brand'' PNone)" by code_simp
  have b: "lower ''NIKE Air Max'' = ''nike air max''" by code_simp
  have c: "dict_get ?raw ''title'' (PStr []) = PStr (''Vintage '' @ ''NIKE Air Max'' @ '' 90'')"
    by (simp add: dict_get_def)
  have d: "is_str (dict_get ?raw ''description'' (PStr []))"
    by (simp add: dict_get_def)
  have e: "extract_brand ?raw = Inr (PStr ''Nike'')"
    using scanned_brand_canonical [of PNone ?raw] a b c d by blast
  then have "PStr ''Nike'' \<in> PStr ` {''Nike'', ''Adidas'', ''Apple'', ''Samsung'', ''Sony''}"
    using scanned_brand_canonical [of PNone ?raw] a by blast
  with a b e show ?thesis by blast
qed

text \<open>
  C4, as the specification states it, lets the explicit brand win whatever the other two
  sources are. The code computes all three candidates before it chooses: with the explicit
  brand "Acme" and a title that is \<open>None\<close>, the scan of the title raises.
\<close>

theorem extract_brand_eager_counterexample:
  "extract_brand [(''brand'', PStr ''Acme''), (''title'', PNone)] = Inl AttributeError"
  by code_simp

text \<open>
  C4, amended. When title and description are strings (or absent, hence the empty string),
  the brand is the first non-empty of: the explicit brand field; the first entry of the
  brand list, in the list's order, that occurs in the title when letter case is ignored;
  the same for the description; and \<open>None\<close> when all three are empty. With the explicit brand
  "Acme" and a title containing "Nike" the result is "Acme". When title or description is
  present and not a string, the call raises \<open>AttributeError\<close>, an explicit brand
  notwithstanding.
\<close>

theorem extract_brand_priority:
  "(\<forall>title description.
       dict_get raw ''title'' (PStr []) = PStr title
       \<and> dict_get raw ''description'' (PStr []) = PStr description
     \<longrightarrow> extract_brand raw =
           Inr (if truthy (dict_get raw ''brand'' PNone) then dict_get raw ''brand'' PNone
                else if first_listed_brand title \<noteq> PNone then first_listed_brand title
                else first_listed_brand description))
   \<and> (\<forall>p q description.
       dict_get raw ''brand'' PNone = PStr ''Acme''
       \<and> dict_get raw ''title'' (PStr []) = PStr (p @ ''Nike'' @ q)
       \<and> dict_get raw ''description'' (PStr []) = PStr description
     \<longrightarrow> extract_brand raw = Inr (PStr ''Acme''))
   \<and> (\<not> is_str (dict_get raw ''title'' (PStr [])) \<or> \<not> is_str (dict_get raw ''description'' (PStr []))
     \<longrightarrow> extract_brand raw = Inl AttributeError)"
proof -
  have a: "extract_brand raw =
           Inr (if truthy (dict_get raw ''brand'' PNone) then dict_get raw ''brand'' PNone
                else if first_listed_brand t \<noteq> PNone then first_listed_brand t
                else first_listed_brand d)"
    if "dict_get raw ''title'' (PStr []) = PStr t" "dict_get raw ''description'' (PStr []) = PStr d"
    for t d
    using that truthy_first_listed [of t] truthy_first_listed [of d]
    by (simp add: extract_brand_str)
  have b: "extract_brand raw = Inr (PStr ''Acme'')"
    if "dict_get raw ''brand'' PNone = PStr ''Acme''"
       "dict_get raw ''title'' (PStr []) = PStr (p @ ''Nike'' @ q)"
       "dict_get raw ''description'' (PStr []) = PStr d"
    for p q d
    using that by (simp add: a)
  have c: "\<not> is_str (dict_get raw ''title'' (PStr [])) \<or> \<not> is_str (dict_get raw ''description'' (PStr []))
     \<longrightarrow> extract_brand raw = Inl AttributeError"
    using extract_brand_error [of raw AttributeError] by simp
  from a b c show ?thesis by blast
qed

theorem extract_brand_priority_witness:
  "dict_get [(''brand'', PStr ''Acme''), (''title'', PStr ''Nike Air Max'')] ''brand'' PNone = PStr ''Acme''
   \<and> dict_get [(''brand'', PStr ''Acme''), (''title'', PStr ''Nike Air Max'')] ''title'' (PStr [])
       = PStr ([] @ ''Nike'' @ '' Air Max'')
   \<and> dict_get [(''brand'', PStr ''Acme''), (''title'', PStr ''Nike Air Max'')] ''description'' (PStr [])
       = PStr []
   \<and> extract_brand [(''brand'', PStr ''Acme''), (''title'', PStr ''Nike Air Max'')] = Inr (PStr ''Acme'')
   \<and> \<not> is_str (dict_get [(''brand'', PStr ''Acme''), (''description'', PInt 3)] ''description'' (PStr []))
   \<and> extract_brand [(''brand'', PStr ''Acme''), (''description'', PInt 3)] = Inl AttributeError"
proof -
  let ?raw = "[(''brand'', PStr ''Acme''), (''title'', PStr ''Nike Air Max'')]"
  let ?bad = "[(''brand'', PStr ''Acme''), (''description'', PInt 3)]"
  have a: "dict_get ?raw ''brand'' PNone = PStr ''Acme''" by (simp add: dict_get_def)
  have b: "dict_get ?raw ''title'' (PStr []) = PStr ([] @ ''Nike'' @ '' Air Max'')"
    by (simp add: dict_get_def)
  have c: "dict_get ?raw ''description'' (PStr []) = PStr []" by (simp add: dict_get_def)
  have d: "extract_brand ?raw = Inr (PStr ''Acme'')"
    using extract_brand_priority [of ?raw] a b c by blast
  have e: "\<not> is_str (dict_get ?bad ''description'' (PStr []))" by (simp add: dict_get_def)
  have f: "extract_brand ?bad = Inl AttributeError"
    using extract_brand_priority [of ?bad] e by blast
  from a b c d e f show ?thesis by blast
qed

section \<open>Failures of the listing normalizer\<close>

lemma normalize_condition_error:
  "normalize_condition v = Inl e \<longleftrightarrow> \<not> is_str v \<and> e = AttributeError"
  by (cases v) (auto simp: normalize_condition_def)

lemma py_float_error:
  "py_float v = Inl e \<Longrightarrow> e \<in> {TypeError, ValueError, OverflowError}"
  by (cases v) (auto split: if_splits option.splits pyfloat.splits)

lemma normalize_listing_error:
  "normalize_listing raw = Inl e \<longleftrightarrow>
     (py_float (dict_get raw ''price'' (PInt 0)) = Inl e
      \<or> (\<not> isl (py_float (dict_get raw ''price'' (PInt 0)))
          \<and> (\<not> is_str (dict_get raw ''condition'' (PStr ''Unknown''))
              \<or> \<not> is_str (dict_get raw ''title'' (PStr []))
              \<or> \<not> is_str (dict_get raw ''description'' (PStr [])))
          \<and> e = AttributeError)
      \<or> (\<not> isl (py_float (dict_get raw ''price'' (PInt 0)))
          \<and> is_str (dict_get raw ''condition'' (PStr ''Unknown''))
          \<and> is_str (dict_get raw ''title'' (PStr []))
          \<and> is_str (dict_get raw ''description'' (PStr []))
          \<and> py_float (dict_get raw ''shipping_cost'' (PInt 0)) = Inl e))"
proof -
  have c: "normalize_condition v = Inr x \<Longrightarrow> is_str v" for v x
    using normalize_condition_error [of v] by (cases v) (auto simp: normalize_condition_def)
  have b: "extract_brand raw = Inr x \<Longrightarrow>
      is_str (dict_get raw ''title'' (PStr [])) \<and> is_str (dict_get raw ''description'' (PStr []))" for x
    using extract_brand_error [of raw AttributeError] by auto
  show ?thesis
    unfolding normalize_listing_def
    by (auto split: sum.splits simp: normalize_condition_error extract_brand_error dest: c b)
qed

lemma normalize_listing_result:
  "normalize_listing raw = Inr out \<Longrightarrow>
     \<exists>price condition brand shipping_cost.
       py_float (dict_get raw ''price'' (PInt 0)) = Inr price
       \<and> normalize_condition (dict_get raw ''condition'' (PStr ''Unknown'')) = Inr condition
       \<and> extract_brand raw = Inr brand
       \<and> py_float (dict_get raw ''shipping_cost'' (PInt 0)) = Inr shipping_cost
       \<and> out = [(''platform'', PStr ''Mercari''),
               (''platform_id'', dict_get raw ''id'' PNone),
               (''title'', dict_get raw ''title'' (PStr [])),
               (''description'', dict_get raw ''description'' (PStr [])),
               (''price'', PFloat price),
               (''images'', dict_get raw ''image_urls'' (PList [])),
               (''condition'', PStr (condition_name condition)),
               (''seller_info'', PDict (extract_seller_info raw)),
               (''category'', dict_get raw ''category'' (PStr ''Unknown'')),
               (''brand'', brand),
               (''shipping_cost'', PFloat shipping_cost),
               (''shipping_method'', dict_get raw ''shipping_method'' (PStr ''Unknown'')),
               (''url'', dict_get raw ''listing_url'' PNone)]"
  unfolding normalize_listing_def by (auto split: sum.splits)

lemma normalize_listing_raise_iff:
  "isl (normalize_listing raw) \<longleftrightarrow>
       isl (py_float (dict_get raw ''price'' (PInt 0)))
       \<or> \<not> is_str (dict_get raw ''condition'' (PStr ''Unknown''))
       \<or> \<not> is_str (dict_get raw ''title'' (PStr []))
       \<or> \<not> is_str (dict_get raw ''description'' (PStr []))
       \<or> isl (py_float (dict_get raw ''shipping_cost'' (PInt 0)))"
proof -
  have isl_iff: "isl x \<longleftrightarrow> (\<exists>e. x = Inl e)" for x :: "pyerr + 'a"
    by (cases x) auto
  show ?thesis
    unfolding isl_iff normalize_listing_error by blast
qed

lemma normalize_listing_coercion_error:
  assumes "is_str (dict_get raw ''condition'' (PStr ''Unknown''))"
    "is_str (dict_get raw ''title'' (PStr []))"
    "is_str (dict_get raw ''description'' (PStr []))"
    "normalize_listing raw = Inl e"
  shows "e \<in> {TypeError, ValueError, OverflowError}"
proof -
  have "py_float (dict_get raw ''price'' (PInt 0)) = Inl e
        \<or> py_float (dict_get raw ''shipping_cost'' (PInt 0)) = Inl e"
    using assms unfolding normalize_listing_error by blast
  then show ?thesis
    using py_float_error by blast
qed

lemma normalize_listing_defaults:
  assumes "normalize_listing raw = Inr out"
  shows "map_of out ''platform_id'' = Some (case map_of raw ''id'' of None \<Rightarrow> PNone | Some v \<Rightarrow> v)
         \<and> map_of out ''title'' = Some (case map_of raw ''title'' of None \<Rightarrow> PStr [] | Some v \<Rightarrow> v)
         \<and> map_of out ''description''
             = Some (case map_of raw ''description'' of None \<Rightarrow> PStr [] | Some v \<Rightarrow> v)
         \<and> map_of out ''images''
             = Some (case map_of raw ''image_urls'' of None \<Rightarrow> PList [] | Some v \<Rightarrow> v)
         \<and> map_of out ''category''
             = Some (case map_of raw ''category'' of None \<Rightarrow> PStr ''Unknown'' | Some v \<Rightarrow> v)
         \<and> map_of out ''shipping_method''
             = Some (case map_of raw ''shipping_method'' of None \<Rightarrow> PStr ''Unknown'' | Some v \<Rightarrow> v)
         \<and> map_of out ''url'' = Some (case map_of raw ''listing_url'' of None \<Rightarrow> PNone | Some v \<Rightarrow> v)
         \<and> (map_of raw ''price'' = None \<longrightarrow> map_of out ''price'' = Some (PFloat (Finite 0)))
         \<and> (map_of raw ''shipping_cost'' = None
              \<longrightarrow> map_of out ''shipping_cost'' = Some (PFloat (Finite 0)))"
proof -
  from normalize_listing_result [OF assms] obtain price condition brand shipping_cost where
    p: "py_float (dict_get raw ''price'' (PInt 0)) = Inr price"
    and s: "py_float (dict_get raw ''shipping_cost'' (PInt 0)) = Inr shipping_cost"
    and out: "out = [(''platform'', PStr ''Mercari''),
               (''platform_id'', dict_get raw ''id'' PNone),
               (''title'', dict_get raw ''title'' (PStr [])),
               (''description'', dict_get raw ''description'' (PStr [])),
               (''price'', PFloat price),
               (''images'', dict_get raw ''image_urls'' (PList [])),
               (''condition'', PStr (condition_name condition)),
               (''seller_info'', PDict (extract_seller_info raw)),
               (''category'', dict_get raw ''category'' (PStr ''Unknown'')),
               (''brand'', brand),
               (''shipping_cost'', PFloat shipping_cost),
               (''shipping_method'', dict_get raw ''shipping_method'' (PStr ''Unknown'')),
               (''url'', dict_get raw ''listing_url'' PNone)]"
    by blast
  have p0: "map_of raw ''price'' = None \<Longrightarrow> price = Finite 0"
    using p by (simp add: dict_get_def round_binary64_def)
  have s0: "map_of raw ''shipping_cost'' = None \<Longrightarrow> shipping_cost = Finite 0"
    using s by (simp add: dict_get_def round_binary64_def)
  show ?thesis
    using p0 s0 unfolding out by (simp add: dict_get_def)
qed

lemma normalize_listing_condition_default:
  assumes "normalize_listing raw = Inr out"
    "dict_get raw ''condition'' (PStr ''Unknown'') = PStr s"
    "\<forall>(pattern, condition) \<in> set condition_mapping. \<not> re_search pattern (lower s)"
  shows "map_of out ''condition'' = Some (PStr ''GOOD'')"
proof -
  have "normalize_condition (PStr s) = Inr GOOD"
    using assms(3) by (simp add: normalize_condition_def first_match_default)
  then show ?thesis
    using normalize_listing_result [OF assms(1)] assms(2) by auto
qed

lemma normalize_listing_brand_default:
  assumes "normalize_listing raw = Inr out"
    "dict_get raw ''title'' (PStr []) = PStr t"
    "dict_get raw ''description'' (PStr []) = PStr d"
    "\<not> truthy (dict_get raw ''brand'' PNone)"
    "first_listed_brand t = PNone" "first_listed_brand d = PNone"
  shows "map_of out ''brand'' = Some PNone"
proof -
  have "extract_brand raw = Inr PNone"
    using assms(2-6) by (simp add: extract_brand_str)
  then show ?thesis
    using normalize_listing_result [OF assms(1)] by auto
qed

lemma normalize_listing_empty:
  "normalize_listing [] =
       Inr [(''platform'', PStr ''Mercari''), (''platform_id'', PNone), (''title'', PStr []),
            (''description'', PStr []), (''price'', PFloat (Finite 0)), (''images'', PList []),
            (''condition'', PStr ''GOOD''),
            (''seller_info'', PDict [(''seller_name'', PStr ''Unknown''), (''seller_rating'', PNone),
                                     (''total_sales'', PInt 0), (''joined_date'', PNone)]),
            (''category'', PStr ''Unknown''), (''brand'', PNone),
            (''shipping_cost'', PFloat (Finite 0)), (''shipping_method'', PStr ''Unknown''),
            (''url'', PNone)]"
  by code_simp

text \<open>
  C5, as the specification states it, has the numeric coercions as the only place where
  \<open>normalize_listing\<close> raises, and a \<open>TypeError\<close> or \<open>ValueError\<close> whenever one of them fails.
  On the record \<open>{condition: None}\<close> both coercions succeed (price and shipping cost are
  absent and default to 0), and the call raises all the same, from
  \<^verbatim>\<open>mercari_condition.lower()\<close>. On \<open>{condition: None, shipping_cost: "abc"}\<close> the
  shipping cost cannot be coerced, and the exception is that \<open>AttributeError\<close> again, raised
  before the coercion is reached.
\<close>

theorem normalize_listing_condition_counterexample:
  "normalize_listing [(''condition'', PNone)] = Inl AttributeError
   \<and> py_float (dict_get [(''condition'', PNone)] ''price'' (PInt 0)) = Inr (Finite 0)
   \<and> py_float (dict_get [(''condition'', PNone)] ''shipping_cost'' (PInt 0)) = Inr (Finite 0)
   \<and> normalize_listing [(''condition'', PNone), (''shipping_cost'', PStr ''abc'')] = Inl AttributeError
   \<and> py_float (dict_get [(''condition'', PNone), (''shipping_cost'', PStr ''abc'')]
         ''shipping_cost'' (PInt 0)) = Inl ValueError"
  by code_simp

text \<open>
  C5, amended. \<open>normalize_listing\<close> raises if and only if the price or the shipping cost
  (when the key is present) cannot be converted to a number, or the condition, the title or
  the description is present and not a string. When condition, title and description are
  strings or absent, it raises if and only if price or shipping cost cannot be converted,
  with a \<open>TypeError\<close>, a \<open>ValueError\<close> or (an int too large for a float) an \<open>OverflowError\<close>.
  For every other field a missing or unmatched value gives the documented default and no
  exception: \<open>None\<close> for \<open>platform_id\<close> and \<open>url\<close> when the key is missing, the empty string
  for title and description, the empty list for images, "Unknown" for category and shipping
  method, 0 for price and shipping cost; \<open>GOOD\<close> for a condition text that matches no
  pattern; \<open>None\<close> for the brand when the brand field is missing or empty and no listed brand
  occurs in title or description. On the empty record the result is the record of all
  defaults.
\<close>

theorem normalize_listing_failures:
  "(isl (normalize_listing raw) \<longleftrightarrow>
       isl (py_float (dict_get raw ''price'' (PInt 0)))
       \<or> \<not> is_str (dict_get raw ''condition'' (PStr ''Unknown''))
       \<or> \<not> is_str (dict_get raw ''title'' (PStr []))
       \<or> \<not> is_str (dict_get raw ''description'' (PStr []))
       \<or> isl (py_float (dict_get raw ''shipping_cost'' (PInt 0))))
   \<and> (is_str (dict_get raw ''condition'' (PStr ''Unknown''))
       \<and> is_str (dict_get raw ''title'' (PStr []))
       \<and> is_str (dict_get raw ''description'' (PStr []))
      \<longrightarrow> (isl (normalize_listing raw) \<longleftrightarrow>
             isl (py_float (dict_get raw ''price'' (PInt 0)))
             \<or> isl (py_float (dict_get raw ''shipping_cost'' (PInt 0))))
          \<and> (\<forall>e. normalize_listing raw = Inl e \<longrightarrow> e \<in> {TypeError, ValueError, OverflowError}))
   \<and> (\<forall>out. normalize_listing raw = Inr out \<longrightarrow>
         map_of out ''platform_id'' = Some (case map_of raw ''id'' of None \<Rightarrow> PNone | Some v \<Rightarrow> v)
         \<and> map_of out ''title'' = Some (case map_of raw ''title'' of None \<Rightarrow> PStr [] | Some v \<Rightarrow> v)
         \<and> map_of out ''description''
             = Some (case map_of raw ''description'' of None \<Rightarrow> PStr [] | Some v \<Rightarrow> v)
         \<and> map_of out ''images''
             = Some (case map_of raw ''image_urls'' of None \<Rightarrow> PList [] | Some v \<Rightarrow> v)
         \<and> map_of out ''category''
             = Some (case map_of raw ''category'' of None \<Rightarrow> PStr ''Unknown'' | Some v \<Rightarrow> v)
         \<and> map_of out ''shipping_method''
             = Some (case map_of raw ''shipping_method'' of None \<Rightarrow> PStr ''Unknown'' | Some v \<Rightarrow> v)
         \<and> map_of out ''url'' = Some (case map_of raw ''listing_url'' of None \<Rightarrow> PNone | Some v \<Rightarrow> v)
         \<and> (map_of raw ''price'' = None \<longrightarrow> map_of out ''price'' = Some (PFloat (Finite 0)))
         \<and> (map_of raw ''shipping_cost'' = None
              \<longrightarrow> map_of out ''shipping_cost'' = Some (PFloat (Finite 0))))
   \<and> (\<forall>out s. normalize_listing raw = Inr out
         \<and> dict_get raw ''condition'' (PStr ''Unknown'') = PStr s
         \<and> (\<forall>(pattern, condition) \<in> set condition_mapping. \<not> re_search pattern (lower s))
       \<longrightarrow> map_of out ''condition'' = Some (PStr ''GOOD''))
   \<and> (\<forall>out t d. normalize_listing raw = Inr out
         \<and> dict_get raw ''title'' (PStr []) = PStr t
         \<and> dict_get raw ''description'' (PStr []) = PStr d
         \<and> \<not> truthy (dict_get raw ''brand'' PNone)
         \<and> first_listed_brand t = PNone \<and> first_listed_brand d = PNone
       \<longrightarrow> map_of out ''brand'' = Some PNone)
   \<and> normalize_listing [] =
       Inr [(''platform'', PStr ''Mercari''), (''platform_id'', PNone), (''title'', PStr []),
            (''description'', PStr []), (''price'', PFloat (Finite 0)), (''images'', PList []),
            (''condition'', PStr ''GOOD''),
            (''seller_info'', PDict [(''seller_name'', PStr ''Unknown''), (''seller_rating'', PNone),
                                     (''total_sales'', PInt 0), (''joined_date'', PNone)]),
            (''category'', PStr ''Unknown''), (''brand'', PNone),
            (''shipping_cost'', PFloat (Finite 0)), (''shipping_method'', PStr ''Unknown''),
            (''url'', PNone)]"
proof (intro conjI)
  show "isl (normalize_listing raw) \<longleftrightarrow>
       isl (py_float (dict_get raw ''price'' (PInt 0)))
       \<or> \<not> is_str (dict_get raw ''condition'' (PStr ''Unknown''))
       \<or> \<not> is_str (dict_get raw ''title'' (PStr []))
       \<or> \<not> is_str (dict_get raw ''description'' (PStr []))
       \<or> isl (py_float (dict_get raw ''shipping_cost'' (PInt 0)))"
    by (rule normalize_listing_raise_iff)
  show "is_str (dict_get raw ''condition'' (PStr ''Unknown''))
       \<and> is_str (dict_get raw ''title'' (PStr []))
       \<and> is_str (dict_get raw ''description'' (PStr []))
      \<longrightarrow> (isl (normalize_listing raw) \<longleftrightarrow>
             isl (py_float (dict_get raw ''price'' (PInt 0)))
             \<or> isl (py_float (dict_get raw ''shipping_cost'' (PInt 0))))
          \<and> (\<forall>e. normalize_listing raw = Inl e \<longrightarrow> e \<in> {TypeError, ValueError, OverflowError})"
    using normalize_listing_raise_iff [of raw] normalize_listing_coercion_error [of raw]
    by blast
  show "\<forall>out. normalize_listing raw = Inr out \<longrightarrow>
         map_of out ''platform_id'' = Some (case map_of raw ''id'' of None \<Rightarrow> PNone | Some v \<Rightarrow> v)
         \<and> map_of out ''title'' = Some (case map_of raw ''title'' of None \<Rightarrow> PStr [] | Some v \<Rightarrow> v)
         \<and> map_of out ''description''
             = Some (case map_of raw ''description'' of None \<Rightarrow> PStr [] | Some v \<Rightarrow> v)
         \<and> map_of out ''images''
             = Some (case map_of raw ''image_urls'' of None \<Rightarrow> PList [] | Some v \<Rightarrow> v)
         \<and> map_of out ''category''
             = Some (case map_of raw ''category'' of None \<Rightarrow> PStr ''Unknown'' | Some v \<Rightarrow> v)
         \<and> map_of out ''shipping_method''
             = Some (case map_of raw ''shipping_method'' of None \<Rightarrow> PStr ''Unknown'' | Some v \<Rightarrow> v)
         \<and> map_of out ''url'' = Some (case map_of raw ''listing_url'' of None \<Rightarrow> PNone | Some v \<Rightarrow> v)
         \<and> (map_of raw ''price'' = None \<longrightarrow> map_of out ''price'' = Some (PFloat (Finite 0)))
         \<and> (map_of raw ''shipping_cost'' = None
              \<longrightarrow> map_of out ''shipping_cost'' = Some (PFloat (Finite 0)))"
    using normalize_listing_defaults [of raw] by blast
  show "\<forall>out s. normalize_listing raw = Inr out
         \<and> dict_get raw ''condition'' (PStr ''Unknown'') = PStr s
         \<and> (\<forall>(pattern, condition) \<in> set condition_mapping. \<not> re_search pattern (lower s))
       \<longrightarrow> map_of out ''condition'' = Some (PStr ''GOOD'')"
    using normalize_listing_condition_default [of raw] by blast
  show "\<forall>out t d. normalize_listing raw = Inr out
         \<and> dict_get raw ''title'' (PStr []) = PStr t
         \<and> dict_get raw ''description'' (PStr []) = PStr d
         \<and> \<not> truthy (dict_get raw ''brand'' PNone)
         \<and> first_listed_brand t = PNone \<and> first_listed_brand d = PNone
       \<longrightarrow> map_of out ''brand'' = Some PNone"
    using normalize_listing_brand_default [of raw] by blast
  show "normalize_listing [] =
       Inr [(''platform'', PStr ''Mercari''), (''platform_id'', PNone), (''title'', PStr []),
            (''description'', PStr []), (''price'', PFloat (Finite 0)), (''images'', PList []),
            (''condition'', PStr ''GOOD''),
            (''seller_info'', PDict [(''seller_name'', PStr ''Unknown''), (''seller_rating'', PNone),
                                     (''total_sales'', PInt 0), (''joined_date'', PNone)]),
            (''category'', PStr ''Unknown''), (''brand'', PNone),
            (''shipping_cost'', PFloat (Finite 0)), (''shipping_method'', PStr ''Unknown''),
            (''url'', PNone)]"
    by (rule normalize_listing_empty)
qed

theorem normalize_listing_failures_witness:
  "is_str (dict_get [(''price'', PStr ''abc'')] ''condition'' (PStr ''Unknown''))
   \<and> is_str (dict_get [(''price'', PStr ''abc'')] ''title'' (PStr []))
   \<and> is_str (dict_get [(''price'', PStr ''abc'')] ''description'' (PStr []))
   \<and> isl (py_float (dict_get [(''price'', PStr ''abc'')] ''price'' (PInt 0)))
   \<and> isl (normalize_listing [(''price'', PStr ''abc'')])
   \<and> normalize_listing [(''price'', PStr ''abc'')] = Inl ValueError
   \<and> ValueError \<in> {TypeError, ValueError, OverflowError}
   \<and> \<not> isl (normalize_listing [(''title'', PStr ''Oak desk''), (''condition'', PStr ''Mint'')])
   \<and> map_of [(''title'', PStr ''Oak desk''), (''condition'', PStr ''Mint'')] ''price'' = None
   \<and> map_of (projr (normalize_listing [(''title'', PStr ''Oak desk''), (''condition'', PStr ''Mint'')]))
         ''price'' = Some (PFloat (Finite 0))
   \<and> map_of (projr (normalize_listing [(''title'', PStr ''Oak desk''), (''condition'', PStr ''Mint'')]))
         ''category'' = Some (PStr ''Unknown'')
   \<and> \<not> list_ex (\<lambda>(pattern, condition). re_search pattern (lower ''Mint'')) condition_mapping
   \<and> map_of (projr (normalize_listing [(''title'', PStr ''Oak desk''), (''condition'', PStr ''Mint'')]))
         ''condition'' = Some (PStr ''GOOD'')
   \<and> \<not> truthy (dict_get [(''title'', PStr ''Oak desk''), (''condition'', PStr ''Mint'')] ''brand'' PNone)
   \<and> find_brand_in_title (PStr ''Oak desk'') = Inr PNone
   \<and> map_of (projr (normalize_listing [(''title'', PStr ''Oak desk''), (''condition'', PStr ''Mint'')]))
         ''brand'' = Some PNone"
proof -
  let ?bad = "[(''price'', PStr ''abc'')]"
  let ?ok = "[(''title'', PStr ''Oak desk''), (''condition'', PStr ''Mint'')]"
  have s: "is_str (dict_get ?bad ''condition'' (PStr ''Unknown''))"
    "is_str (dict_get ?bad ''title'' (PStr []))"
    "is_str (dict_get ?bad ''description'' (PStr []))"
    by (simp_all add: dict_get_def)
  have p: "isl (py_float (dict_get ?bad ''price'' (PInt 0)))" by code_simp
  have e: "normalize_listing ?bad = Inl ValueError" by code_simp
  have i: "isl (normalize_listing ?bad)"
    using normalize_listing_failures [of ?bad] s p by blast
  have v: "ValueError \<in> {TypeError, ValueError, OverflowError}"
    using normalize_listing_failures [of ?bad] s e by blast
  have "\<not> isl (normalize_listing ?ok)" by code_simp
  then obtain out where h: "normalize_listing ?ok = Inr out"
    by (cases "normalize_listing ?ok") auto
  have m: "map_of ?ok ''price'' = None" "map_of ?ok ''category'' = None" by simp_all
  have o: "map_of out ''price'' = Some (PFloat (Finite 0))"
    "map_of out ''category'' = Some (PStr ''Unknown'')"
    using normalize_listing_failures [of ?ok] h m by auto
  have c: "\<not> list_ex (\<lambda>(pattern, condition). re_search pattern (lower ''Mint'')) condition_mapping"
    by code_simp
  then have c': "\<forall>(pattern, condition) \<in> set condition_mapping. \<not> re_search pattern (lower ''Mint'')"
    by (auto simp: list_ex_iff)
  have g: "dict_get ?ok ''condition'' (PStr ''Unknown'') = PStr ''Mint''"
    "dict_get ?ok ''title'' (PStr []) = PStr ''Oak desk''"
    "dict_get ?ok ''description'' (PStr []) = PStr []"
    by (simp_all add: dict_get_def)
  have k: "map_of out ''condition'' = Some (PStr ''GOOD'')"
    using normalize_listing_failures [of ?ok] h g(1) c' by blast
  have t: "\<not> truthy (dict_get ?ok ''brand'' PNone)" by (simp add: dict_get_def)
  have f1: "find_brand_in_title (PStr ''Oak desk'') = Inr PNone" by code_simp
  have f2: "find_brand_in_title (PStr []) = Inr PNone" by code_simp
  have n: "first_listed_brand ''Oak desk'' = PNone" "first_listed_brand [] = PNone"
    using f1 f2 by (simp_all add: find_brand_in_title_str)
  have b: "map_of out ''brand'' = Some PNone"
    using normalize_listing_failures [of ?ok] h g(2,3) t n by blast
  from s p i e v h m o c k t f1 b show ?thesis by simp
qed

lemma dict_get_Cons: "dict_get ((k, v) # raw) k' d = (if k' = k then v else dict_get raw k' d)"
  by (simp add: dict_get_def)

lemma dict_get_present: "map_of raw k = Some v \<Longrightarrow> dict_get raw k d = v"
  by (simp add: dict_get_def)

lemma float_of_str_7999:
  "float_of_str ''79.99'' = Some (Finite (5628795846771343 / 70368744177664))"
  by code_simp

lemma normalize_listing_set_price:
  assumes "normalize_listing raw = Inr out"
  shows "normalize_listing ((''price'', PNone) # raw) = Inl TypeError"
    and "\<exists>out'. normalize_listing ((''price'', PStr ''79.99'') # raw) = Inr out'
            \<and> map_of out' ''price'' = Some (PFloat (Finite (5628795846771343 / 70368744177664)))"
proof -
  from normalize_listing_result [OF assms] obtain price condition brand shipping_cost where
    c: "normalize_condition (dict_get raw ''condition'' (PStr ''Unknown'')) = Inr condition"
    and b: "extract_brand raw = Inr brand"
    and s: "py_float (dict_get raw ''shipping_cost'' (PInt 0)) = Inr shipping_cost"
    by blast
  have b': "extract_brand ((''price'', v) # raw) = extract_brand raw" for v
    by (simp add: extract_brand_def dict_get_Cons cong: sum.case_cong)
  show "normalize_listing ((''price'', PNone) # raw) = Inl TypeError"
    by (simp add: normalize_listing_def dict_get_Cons)
  show "\<exists>out'. normalize_listing ((''price'', PStr ''79.99'') # raw) = Inr out'
            \<and> map_of out' ''price'' = Some (PFloat (Finite (5628795846771343 / 70368744177664)))"
    using c b s by (simp add: normalize_listing_def dict_get_Cons b' float_of_str_7999)
qed

lemma normalize_listing_set_shipping:
  assumes "normalize_listing raw = Inr out"
  shows "normalize_listing ((''shipping_cost'', PNone) # raw) = Inl TypeError"
    and "\<exists>out'. normalize_listing ((''shipping_cost'', PStr ''79.99'') # raw) = Inr out'
            \<and> map_of out' ''shipping_cost''
                = Some (PFloat (Finite (5628795846771343 / 70368744177664)))"
proof -
  from normalize_listing_result [OF assms] obtain price condition brand shipping_cost where
    p: "py_float (dict_get raw ''price'' (PInt 0)) = Inr price"
    and c: "normalize_condition (dict_get raw ''condition'' (PStr ''Unknown'')) = Inr condition"
    and b: "extract_brand raw = Inr brand"
    by blast
  have b': "extract_brand ((''shipping_cost'', v) # raw) = extract_brand raw" for v
    by (simp add: extract_brand_def dict_get_Cons cong: sum.case_cong)
  show "normalize_listing ((''shipping_cost'', PNone) # raw) = Inl TypeError"
    using p c b by (simp add: normalize_listing_def dict_get_Cons b')
  show "\<exists>out'. normalize_listing ((''shipping_cost'', PStr ''79.99'') # raw) = Inr out'
            \<and> map_of out' ''shipping_cost''
                = Some (PFloat (Finite (5628795846771343 / 70368744177664)))"
    using p c b by (simp add: normalize_listing_def dict_get_Cons b' float_of_str_7999)
qed

lemma normalize_listing_null_shipping:
  assumes "map_of raw ''shipping_cost'' = Some PNone"
  shows "normalize_listing raw =
     (case py_float (dict_get raw ''price'' (PInt 0)) of
        Inl e \<Rightarrow> Inl e
      | Inr price \<Rightarrow>
          if is_str (dict_get raw ''condition'' (PStr ''Unknown''))
             \<and> is_str (dict_get raw ''title'' (PStr []))
             \<and> is_str (dict_get raw ''description'' (PStr []))
          then Inl TypeError else Inl AttributeError)"
proof (cases "py_float (dict_get raw ''price'' (PInt 0))")
  case (Inl e)
  then show ?thesis
    using normalize_listing_error [of raw e] by simp
next
  case (Inr price)
  have n: "py_float (dict_get raw ''shipping_cost'' (PInt 0)) = Inl TypeError"
    using assms by (simp add: dict_get_present)
  show ?thesis
  proof (cases "is_str (dict_get raw ''condition'' (PStr ''Unknown''))
             \<and> is_str (dict_get raw ''title'' (PStr []))
             \<and> is_str (dict_get raw ''description'' (PStr []))")
    case True
    then show ?thesis
      using Inr n normalize_listing_error [of raw TypeError] by simp
  next
    case False
    then show ?thesis
      using Inr normalize_listing_error [of raw AttributeError] by auto
  qed
qed

text \<open>
  C10, as stated, has a \<open>TypeError\<close> on every record whose \<open>shipping_cost\<close> is \<open>None\<close>. The
  price is coerced first: when it is the text "abc" the call raises the \<open>ValueError\<close> of
  that coercion, and the shipping cost is never looked at.
\<close>

theorem null_shipping_cost_counterexample:
  "map_of [(''shipping_cost'', PNone), (''price'', PStr ''abc'')] ''shipping_cost'' = Some PNone
   \<and> normalize_listing [(''shipping_cost'', PNone), (''price'', PStr ''abc'')] = Inl ValueError"
  by code_simp

text \<open>
  C10, amended. A key that maps to \<open>None\<close> is not a missing key. A record whose \<open>price\<close> is
  \<open>None\<close> raises the \<open>TypeError\<close> of the numeric coercion. A record whose \<open>shipping_cost\<close> is
  \<open>None\<close> raises: the exception of the price coercion when that fails, else
  \<open>AttributeError\<close> when condition, title or description is present and not a string, else
  the \<open>TypeError\<close> of the numeric coercion. A record that lacks the key and is normalized has
  the default 0 in that field; the same record with the key set to \<open>None\<close> raises
  \<open>TypeError\<close>; and with the key set to the numeric string "79.99" it is normalized, the
  field holding the float 79.99 (the binary64 nearest to it).
\<close>

theorem null_is_not_missing:
  "(map_of raw ''price'' = Some PNone \<longrightarrow> normalize_listing raw = Inl TypeError)
   \<and> (map_of raw ''shipping_cost'' = Some PNone \<longrightarrow>
        normalize_listing raw =
          (case py_float (dict_get raw ''price'' (PInt 0)) of
             Inl e \<Rightarrow> Inl e
           | Inr price \<Rightarrow>
               if is_str (dict_get raw ''condition'' (PStr ''Unknown''))
                  \<and> is_str (dict_get raw ''title'' (PStr []))
                  \<and> is_str (dict_get raw ''description'' (PStr []))
               then Inl TypeError else Inl AttributeError))
   \<and> (\<forall>out. map_of raw ''price'' = None \<and> normalize_listing raw = Inr out \<longrightarrow>
         map_of out ''price'' = Some (PFloat (Finite 0))
         \<and> normalize_listing ((''price'', PNone) # raw) = Inl TypeError
         \<and> (\<exists>out'. normalize_listing ((''price'', PStr ''79.99'') # raw) = Inr out'
                \<and> map_of out' ''price''
                    = Some (PFloat (Finite (5628795846771343 / 70368744177664)))))
   \<and> (\<forall>out. map_of raw ''shipping_cost'' = None \<and> normalize_listing raw = Inr out \<longrightarrow>
         map_of out ''shipping_cost'' = Some (PFloat (Finite 0))
         \<and> normalize_listing ((''shipping_cost'', PNone) # raw) = Inl TypeError
         \<and> (\<exists>out'. normalize_listing ((''shipping_cost'', PStr ''79.99'') # raw) = Inr out'
                \<and> map_of out' ''shipping_cost''
                    = Some (PFloat (Finite (5628795846771343 / 70368744177664)))))"
proof -
  have a: "map_of raw ''price'' = Some PNone \<longrightarrow> normalize_listing raw = Inl TypeError"
    by (simp add: normalize_listing_def dict_get_present)
  have p0: "map_of out ''price'' = Some (PFloat (Finite 0))"
    if "map_of raw ''price'' = None" "normalize_listing raw = Inr out" for out
    using normalize_listing_defaults [OF that(2)] that(1) by blast
  have s0: "map_of out ''shipping_cost'' = Some (PFloat (Finite 0))"
    if "map_of raw ''shipping_cost'' = None" "normalize_listing raw = Inr out" for out
    using normalize_listing_defaults [OF that(2)] that(1) by blast
  from a normalize_listing_null_shipping [of raw] p0 s0
    normalize_listing_set_price normalize_listing_set_shipping
  show ?thesis by blast
qed

theorem null_is_not_missing_witness:
  "map_of [(''title'', PStr ''Lamp'')] ''price'' = None
   \<and> map_of [(''title'', PStr ''Lamp'')] ''shipping_cost'' = None
   \<and> \<not> isl (normalize_listing [(''title'', PStr ''Lamp'')])
   \<and> map_of (projr (normalize_listing [(''title'', PStr ''Lamp'')])) ''price'' = Some (PFloat (Finite 0))
   \<and> map_of (projr (normalize_listing [(''title'', PStr ''Lamp'')])) ''shipping_cost''
       = Some (PFloat (Finite 0))
   \<and> map_of [(''price'', PNone), (''title'', PStr ''Lamp'')] ''price'' = Some PNone
   \<and> normalize_listing [(''price'', PNone), (''title'', PStr ''Lamp'')] = Inl TypeError
   \<and> map_of [(''shipping_cost'', PNone), (''title'', PStr ''Lamp'')] ''shipping_cost'' = Some PNone
   \<and> normalize_listing [(''shipping_cost'', PNone), (''title'', PStr ''Lamp'')] = Inl TypeError
   \<and> map_of [(''shipping_cost'', PNone), (''title'', PInt 3)] ''shipping_cost'' = Some PNone
   \<and> normalize_listing [(''shipping_cost'', PNone), (''title'', PInt 3)] = Inl AttributeError
   \<and> \<not> isl (normalize_listing [(''price'', PStr ''79.99''), (''title'', PStr ''Lamp'')])
   \<and> map_of (projr (normalize_listing [(''price'', PStr ''79.99''), (''title'', PStr ''Lamp'')])) ''price''
       = Some (PFloat (Finite (5628795846771343 / 70368744177664)))"
proof -
  let ?raw = "[(''title'', PStr ''Lamp'')]"
  let ?odd = "[(''shipping_cost'', PNone), (''title'', PInt 3)]"
  have m: "map_of ?raw ''price'' = None" "map_of ?raw ''shipping_cost'' = None"
    by simp_all
  have "\<not> isl (normalize_listing ?raw)" by code_simp
  then obtain out where h: "normalize_listing ?raw = Inr out"
    by (cases "normalize_listing ?raw") auto
  have n: "map_of ((''price'', PNone) # ?raw) ''price'' = Some PNone"
    "map_of ((''shipping_cost'', PNone) # ?raw) ''shipping_cost'' = Some PNone"
    "map_of ?odd ''shipping_cost'' = Some PNone"
    by simp_all
  have p: "normalize_listing ((''price'', PNone) # ?raw) = Inl TypeError"
    using null_is_not_missing [of "(''price'', PNone) # ?raw"] n by blast
  have q: "normalize_listing ?odd =
          (case py_float (dict_get ?odd ''price'' (PInt 0)) of
             Inl e \<Rightarrow> Inl e
           | Inr price \<Rightarrow>
               if is_str (dict_get ?odd ''condition'' (PStr ''Unknown''))
                  \<and> is_str (dict_get ?odd ''title'' (PStr []))
                  \<and> is_str (dict_get ?odd ''description'' (PStr []))
               then Inl TypeError else Inl AttributeError)"
    using null_is_not_missing [of ?odd] n by blast
  have q': "normalize_listing ?odd = Inl AttributeError"
    unfolding q by (simp add: dict_get_def round_binary64_def)
  have z: "map_of out ''price'' = Some (PFloat (Finite 0))"
    "map_of out ''shipping_cost'' = Some (PFloat (Finite 0))"
    "normalize_listing ((''shipping_cost'', PNone) # ?raw) = Inl TypeError"
    using null_is_not_missing [of ?raw] m h by blast+
  obtain out' where o: "normalize_listing ((''price'', PStr ''79.99'') # ?raw) = Inr out'"
    "map_of out' ''price'' = Some (PFloat (Finite (5628795846771343 / 70368744177664)))"
    using null_is_not_missing [of ?raw] m h by blast
  from m h n p q' z o show ?thesis by simp
qed

section \<open>Equality of the records of two calls\<close>












section \<open>Failures of the search client\<close>

text \<open>
  C6. When \<^verbatim>\<open>requests.get\<close> raises a \<open>RequestException\<close>, and when the response has a
  4xx or 5xx status, \<open>search\<close> returns the empty list and no exception reaches the caller;
  this is the very value it returns for a successful response with no items.
\<close>

theorem search_failure_empty:
  "(requests_get (search_request self keywords category condition min_price max_price include_sold)
       = Inl RequestException
     \<longrightarrow> snd (search format_value requests_get self keywords category condition min_price max_price
                include_sold) = Inr [])
   \<and> (\<forall>resp.
        requests_get (search_request self keywords category condition min_price max_price include_sold)
          = Inr resp
        \<and> 400 \<le> status_code resp \<and> status_code resp < 600
      \<longrightarrow> snd (search format_value requests_get self keywords category condition min_price max_price
                 include_sold) = Inr [])
   \<and> (\<forall>resp.
        requests_get (search_request self keywords category condition min_price max_price include_sold)
          = Inr resp
        \<and> status_code resp = 200 \<and> json_body resp = Inr (PDict [(''items'', PList [])])
      \<longrightarrow> snd (search format_value requests_get self keywords category condition min_price max_price
                 include_sold) = Inr [])"
  by (auto simp: search_def search_try_def raise_for_status_def dict_get_def)

theorem search_failure_empty_witness:
  "snd (search (\<lambda>v. []) (\<lambda>req. Inl RequestException) (init None) ''nintendo switch''
          None None None None False) = Inr []
   \<and> snd (search (\<lambda>v. []) (\<lambda>req. Inr \<lparr>status_code = 503, json_body = Inl ValueError\<rparr>) (init None)
          ''nintendo switch'' None None None None False) = Inr []
   \<and> snd (search (\<lambda>v. [])
          (\<lambda>req. Inr \<lparr>status_code = 200, json_body = Inr (PDict [(''items'', PList [])])\<rparr>) (init None)
          ''nintendo switch'' None None None None False) = Inr []"
proof -
  have a: "snd (search (\<lambda>v. []) (\<lambda>req. Inl RequestException) (init None) ''nintendo switch''
          None None None None False) = Inr []"
    using search_failure_empty [of "\<lambda>req. Inl RequestException"] by simp
  have b: "snd (search (\<lambda>v. []) (\<lambda>req. Inr \<lparr>status_code = 503, json_body = Inl ValueError\<rparr>) (init None)
          ''nintendo switch'' None None None None False) = Inr []"
    using search_failure_empty [of "\<lambda>req. Inr \<lparr>status_code = 503, json_body = Inl ValueError\<rparr>"]
    by simp
  have c: "snd (search (\<lambda>v. [])
          (\<lambda>req. Inr \<lparr>status_code = 200, json_body = Inr (PDict [(''items'', PList [])])\<rparr>) (init None)
          ''nintendo switch'' None None None None False) = Inr []"
    using search_failure_empty
      [of "\<lambda>req. Inr \<lparr>status_code = 200, json_body = Inr (PDict [(''items'', PList [])])\<rparr>"]
    by simp
  from a b c show ?thesis by (intro conjI)
qed

end
